theory Spec2Isabelle
  imports Main "HOL-Library.Word"
begin

section \<open>Data model of the presentation request message\<close>

text \<open>
  \<^verbatim>\<open>pres_request.py\<close> defines the message class \<^verbatim>\<open>V20PresRequest\<close> and its schema
  \<^verbatim>\<open>V20PresRequestSchema\<close>. The classes it imports (\<^verbatim>\<open>AttachDecorator\<close>,
  \<^verbatim>\<open>V20PresFormat\<close>) live in other modules; only the attributes this file reads are
  modelled: \<^verbatim>\<open>ident\<close> and \<^verbatim>\<open>content\<close> of an attachment, \<^verbatim>\<open>attach_id\<close> and
  \<^verbatim>\<open>format\<close> of a format descriptor. The attachment content is opaque (type \<open>'c\<close>);
  \<^verbatim>\<open>content\<close> is a property of \<^verbatim>\<open>AttachDecorator\<close> and is read here as a field.
\<close>

record 'c AttachDecorator =
  ident :: string
  content :: 'c

record V20PresFormat =
  attach_id :: string
  format :: string

text \<open>
  The message object built by \<^verbatim>\<open>V20PresRequest.__init__\<close>. \<open>message_id\<close> is the
  \<^verbatim>\<open>_id\<close> handed to \<^verbatim>\<open>AgentMessage.__init__\<close>; \<open>signature\<close> is \<^verbatim>\<open>None\<close> until set.
\<close>

record 'c V20PresRequest =
  message_id :: string
  comment :: "string option"
  verifier_did :: "string option"
  will_confirm :: bool
  formats :: "V20PresFormat list"
  signature :: "string option"
  request_presentations_attach :: "'c AttachDecorator list"

text \<open>
  The dictionary \<^verbatim>\<open>data\<close> that marshmallow hands to the schema validator: one entry per
  schema field, \<open>None\<close> when the key is absent or its value is \<^verbatim>\<open>None\<close>
  (\<^verbatim>\<open>dict.get\<close> does not tell the two apart).
\<close>

record 'c request_data =
  data_comment :: "string option"
  data_will_confirm :: "bool option"
  data_verifier_did :: "string option"
  data_formats :: "V20PresFormat list option"
  data_signature :: "string option"
  data_request_presentations_attach :: "'c AttachDecorator list option"

text \<open>
  What \<^verbatim>\<open>pres_request.py\<close> uses of \<^verbatim>\<open>pres_format.py\<close> and \<^verbatim>\<open>message_types.py\<close>, taken
  as parameters: the registry lookup \<^verbatim>\<open>V20PresFormat.Format.get\<close> (a format object of
  type \<open>'f\<close>, or \<open>None\<close> for an unknown identifier), the per-format validator
  \<^verbatim>\<open>Format.validate_fields(message_type, attachment_data)\<close> (\<open>Some e\<close> when it raises
  \<open>e\<close>) and the constant \<^verbatim>\<open>PRES_20_REQUEST\<close>.
\<close>

record ('f, 'c, 'e) format_api =
  Format_get :: "string \<Rightarrow> 'f option"
  Format_validate_fields :: "'f \<Rightarrow> string \<Rightarrow> 'c \<Rightarrow> 'e option"
  PRES_20_REQUEST :: string

text \<open>
  Errors: the \<^verbatim>\<open>ValidationError\<close> the schema itself raises, with its message, and an
  exception that propagates out of a per-format validator.
\<close>

datatype 'e error = ValidationError string | FormatRaised 'e

text \<open>
  The calls a run of the validator makes, in order: \<^verbatim>\<open>get_attach_by_id(attach_id)\<close> and
  \<^verbatim>\<open>pres_format.validate_fields(PRES_20_REQUEST, atch.content)\<close>.
\<close>

datatype ('f, 'c) event = GetAttach string | Dispatch 'f string 'c

section \<open>Schema validation\<close>

text \<open>\<^verbatim>\<open>x or []\<close> for a list that may be \<^verbatim>\<open>None\<close>.\<close>

definition or_empty :: "'a list option \<Rightarrow> 'a list" where
  "or_empty x = (case x of None \<Rightarrow> [] | Some xs \<Rightarrow> (if xs = [] then [] else xs))"

text \<open>
  The nested function \<^verbatim>\<open>get_attach_by_id\<close>; the list \<^verbatim>\<open>attachments\<close> of the enclosing
  scope is its first argument.
\<close>

fun get_attach_by_id :: "'c AttachDecorator list \<Rightarrow> string \<Rightarrow> 'e error + 'c AttachDecorator" where
  "get_attach_by_id [] aid =
     Inl (ValidationError (''No attachment for attach_id '' @ aid @ '' in formats''))"
| "get_attach_by_id (atch # attachments) aid =
     (if ident atch = aid then Inr atch else get_attach_by_id attachments aid)"

text \<open>
  The loop \<^verbatim>\<open>for fmt in formats\<close>: the first exception ends it. The result is the
  list of calls made and either the exception or \<open>()\<close> for a normal return.
\<close>

fun validate_loop ::
  "('f, 'c, 'e) format_api \<Rightarrow> 'c AttachDecorator list \<Rightarrow> V20PresFormat list
     \<Rightarrow> ('f, 'c) event list \<times> ('e error + unit)" where
  "validate_loop api attachments [] = ([], Inr ())"
| "validate_loop api attachments (fmt # rest) =
     (case get_attach_by_id attachments (attach_id fmt) of
        Inl e \<Rightarrow> ([GetAttach (attach_id fmt)], Inl e)
      | Inr atch \<Rightarrow>
          (case Format_get api (format fmt) of
             None \<Rightarrow>
               (case validate_loop api attachments rest of
                  (tr, r) \<Rightarrow> (GetAttach (attach_id fmt) # tr, r))
           | Some pres_format \<Rightarrow>
               (case Format_validate_fields api pres_format (PRES_20_REQUEST api) (content atch) of
                  Some e \<Rightarrow>
                    ([GetAttach (attach_id fmt),
                      Dispatch pres_format (PRES_20_REQUEST api) (content atch)],
                     Inl (FormatRaised e))
                | None \<Rightarrow>
                    (case validate_loop api attachments rest of
                       (tr, r) \<Rightarrow>
                         (GetAttach (attach_id fmt)
                            # Dispatch pres_format (PRES_20_REQUEST api) (content atch) # tr,
                          r)))))"

text \<open>\<^verbatim>\<open>V20PresRequestSchema.validate_fields\<close>.\<close>

definition validate_fields ::
  "('f, 'c, 'e) format_api \<Rightarrow> 'c request_data \<Rightarrow> ('f, 'c) event list \<times> ('e error + unit)" where
  "validate_fields api data =
     (let formats = or_empty (data_formats data);
          attachments = or_empty (data_request_presentations_attach data)
      in if length formats \<noteq> length attachments
         then ([], Inl (ValidationError ''Formats/attachments length mismatch''))
         else validate_loop api attachments formats)"

text \<open>
  Reading a trace: the attachment identifiers looked up, and the dispatches to per-format
  validators (format object, message type, content), both in call order.
\<close>

fun lookups :: "('f, 'c) event list \<Rightarrow> string list" where
  "lookups [] = []"
| "lookups (GetAttach aid # tr) = aid # lookups tr"
| "lookups (Dispatch pf mt c # tr) = lookups tr"

fun dispatches :: "('f, 'c) event list \<Rightarrow> ('f \<times> string \<times> 'c) list" where
  "dispatches [] = []"
| "dispatches (GetAttach aid # tr) = dispatches tr"
| "dispatches (Dispatch pf mt c # tr) = (pf, mt, c) # dispatches tr"

text \<open>
  The dispatch a descriptor calls for: one call when its format is known to the registry
  and an attachment carries its \<^verbatim>\<open>attach_id\<close> (the first such attachment), none otherwise.
\<close>

definition dispatch_of ::
  "('f, 'c, 'e) format_api \<Rightarrow> 'c AttachDecorator list \<Rightarrow> V20PresFormat
     \<Rightarrow> ('f \<times> string \<times> 'c) list" where
  "dispatch_of api attachments fmt =
     (case (Format_get api (format fmt), find (\<lambda>a. ident a = attach_id fmt) attachments) of
        (Some pres_format, Some atch) \<Rightarrow> [(pres_format, PRES_20_REQUEST api, content atch)]
      | _ \<Rightarrow> [])"

text \<open>
  A descriptor passes when an attachment carries its \<^verbatim>\<open>attach_id\<close> and, if its format is
  known, the format's validator raises nothing on the content of the first such attachment.
\<close>

definition passes ::
  "('f, 'c, 'e) format_api \<Rightarrow> 'c AttachDecorator list \<Rightarrow> V20PresFormat \<Rightarrow> bool" where
  "passes api attachments fmt =
     (case find (\<lambda>a. ident a = attach_id fmt) attachments of
        None \<Rightarrow> False
      | Some atch \<Rightarrow>
          (case Format_get api (format fmt) of
             None \<Rightarrow> True
           | Some pres_format \<Rightarrow>
               Format_validate_fields api pres_format (PRES_20_REQUEST api) (content atch) = None))"

section \<open>Schema validation with the state of the collaborators made explicit\<close>





section \<open>Attachment lookup by format\<close>

text \<open>
  \<^verbatim>\<open>next(filter(lambda ff: ff, xs), None)\<close>: the first element that is not \<^verbatim>\<open>None\<close>
  (format objects are truthy).
\<close>

fun next_filter :: "'a option list \<Rightarrow> 'a option" where
  "next_filter [] = None"
| "next_filter (ff # rest) = (case ff of Some f \<Rightarrow> Some f | None \<Rightarrow> next_filter rest)"

text \<open>
  Modelled from the spec: \<^verbatim>\<open>V20PresFormat.Format.get_attachment_data\<close> is defined in
  \<^verbatim>\<open>pres_format.py\<close>, which is not among the sources. The specification of the content
  resolver (4.3) with a target format given: return the content of the attachment bound to
  the first format descriptor whose format identifier is the target format, and none if
  nothing matches. A descriptor's identifier is the target when the registry resolves it to
  the target format object; the attachment bound to a descriptor is the first one carrying
  its \<^verbatim>\<open>attach_id\<close> (4.1, first occurrence).
\<close>

definition get_attachment_data ::
  "('f, 'c, 'e) format_api \<Rightarrow> 'f \<Rightarrow> V20PresFormat list \<Rightarrow> 'c AttachDecorator list \<Rightarrow> 'c option" where
  "get_attachment_data api target_format fmts attachments =
     (case find (\<lambda>f. Format_get api (format f) = Some target_format) fmts of
        None \<Rightarrow> None
      | Some fmt \<Rightarrow>
          (case find (\<lambda>a. ident a = attach_id fmt) attachments of
             None \<Rightarrow> None
           | Some atch \<Rightarrow> Some (content atch)))"

text \<open>\<^verbatim>\<open>V20PresRequest.attachment\<close>; \<open>fmt = None\<close> is the call without a format.\<close>

definition attachment ::
  "('f, 'c, 'e) format_api \<Rightarrow> 'c V20PresRequest \<Rightarrow> 'f option \<Rightarrow> 'c option" where
  "attachment api self fmt =
     (let target_format =
            (case fmt of
               Some f \<Rightarrow> Some f
             | None \<Rightarrow> next_filter (map (\<lambda>f. Format_get api (format f)) (formats self)))
      in case target_format of
           Some t \<Rightarrow> get_attachment_data api t (formats self) (request_presentations_attach self)
         | None \<Rightarrow> None)"

section \<open>Signature\<close>

text \<open>
  \<^verbatim>\<open>base64.b64encode\<close> and \<^verbatim>\<open>base64.b64decode\<close> belong to the Python standard library;
  they are written out here after RFC 4648, section 4, which they implement: three bytes
  become four characters of the standard alphabet, and a last group of one or two bytes is
  padded with \<^verbatim>\<open>=\<close>. Bytes are 8-bit words; the encoded text is ASCII, so decoding it as
  UTF-8 gives the same characters.
\<close>

definition b64_alphabet :: string where
  "b64_alphabet = ''ABCDEFGHIJKLMNOPQRSTUVWXYZabcdefghijklmnopqrstuvwxyz0123456789+/''"

text \<open>The character of a 6-bit value; every call below passes a value under 64.\<close>

definition b64_char :: "nat \<Rightarrow> char" where
  "b64_char n = b64_alphabet ! n"

fun position :: "'a \<Rightarrow> 'a list \<Rightarrow> nat option" where
  "position x [] = None"
| "position x (y # ys) = (if x = y then Some 0 else map_option Suc (position x ys))"

definition b64_value :: "char \<Rightarrow> nat option" where
  "b64_value c = position c b64_alphabet"

fun b64encode :: "8 word list \<Rightarrow> string" where
  "b64encode [] = []"
| "b64encode [a] =
     [b64_char (unat a div 4), b64_char (unat a mod 4 * 16), CHR ''='', CHR ''='']"
| "b64encode [a, b] =
     [b64_char (unat a div 4), b64_char (unat a mod 4 * 16 + unat b div 16),
      b64_char (unat b mod 16 * 4), CHR ''='']"
| "b64encode (a # b # c # rest) =
     [b64_char (unat a div 4), b64_char (unat a mod 4 * 16 + unat b div 16),
      b64_char (unat b mod 16 * 4 + unat c div 64), b64_char (unat c mod 64)]
     @ b64encode rest"

fun b64decode :: "string \<Rightarrow> 8 word list option" where
  "b64decode [] = Some []"
| "b64decode (c1 # c2 # c3 # c4 # rest) =
     (case (b64_value c1, b64_value c2) of
        (Some s1, Some s2) \<Rightarrow>
          (if c3 = CHR ''=''
           then (if c4 = CHR ''='' \<and> rest = [] then Some [of_nat (s1 * 4 + s2 div 16)] else None)
           else
             (case b64_value c3 of
                None \<Rightarrow> None
              | Some s3 \<Rightarrow>
                  (if c4 = CHR ''=''
                   then (if rest = []
                         then Some [of_nat (s1 * 4 + s2 div 16), of_nat (s2 mod 16 * 16 + s3 div 4)]
                         else None)
                   else
                     (case b64_value c4 of
                        None \<Rightarrow> None
                      | Some s4 \<Rightarrow>
                          (case b64decode rest of
                             None \<Rightarrow> None
                           | Some bs \<Rightarrow>
                               Some (of_nat (s1 * 4 + s2 div 16)
                                       # of_nat (s2 mod 16 * 16 + s3 div 4)
                                       # of_nat (s3 mod 4 * 64 + s4) # bs))))))
      | _ \<Rightarrow> None)"
| "b64decode _ = None"

text \<open>
  \<^verbatim>\<open>V20PresRequest.add_signature\<close>: the assignment to \<^verbatim>\<open>self.signature\<close> is the update
  of that field; the updated object is returned.
\<close>

definition add_signature :: "'c V20PresRequest \<Rightarrow> 8 word list \<Rightarrow> 'c V20PresRequest" where
  "add_signature self sign = self\<lparr>signature := Some (b64encode sign)\<rparr>"

section \<open>A registry and messages to evaluate on\<close>

text \<open>
  A registry that knows the single identifier \<^verbatim>\<open>known/1.0\<close>, whose validator raises on
  the content \<^verbatim>\<open>bad\<close> and accepts everything else.
\<close>

definition demo_api :: "(nat, string, string) format_api" where
  "demo_api =
     \<lparr>Format_get = (\<lambda>s. if s = ''known/1.0'' then Some 0 else None),
      Format_validate_fields = (\<lambda>pf mt c. if c = ''bad'' then Some ''rejected'' else None),
      PRES_20_REQUEST = ''present-proof/2.0/request-presentation''\<rparr>"


definition demo_data ::
  "V20PresFormat list option \<Rightarrow> string AttachDecorator list option \<Rightarrow> string request_data" where
  "demo_data fs atts =
     \<lparr>data_comment = None, data_will_confirm = None, data_verifier_did = None,
      data_formats = fs, data_signature = None, data_request_presentations_attach = atts\<rparr>"

definition demo_request ::
  "V20PresFormat list \<Rightarrow> string AttachDecorator list \<Rightarrow> string V20PresRequest" where
  "demo_request fs atts =
     \<lparr>message_id = ''m1'', comment = None, verifier_did = None, will_confirm = False,
      formats = fs, signature = None, request_presentations_attach = atts\<rparr>"

section \<open>The validation loop, step by step\<close>

lemma or_empty_simps [simp]:
  "or_empty None = []"
  "or_empty (Some xs) = xs"
  by (simp_all add: or_empty_def)

lemma get_attach_by_id_find:
  "get_attach_by_id attachments aid =
     (case find (\<lambda>a. ident a = aid) attachments of
        None \<Rightarrow> Inl (ValidationError (''No attachment for attach_id '' @ aid @ '' in formats''))
      | Some atch \<Rightarrow> Inr atch)"
  by (induction attachments) simp_all

lemma find_ident_None: "find (\<lambda>a. ident a = aid) attachments = None \<longleftrightarrow> aid \<notin> ident ` set attachments"
  by (auto simp: find_None_iff)

lemma find_ident_Some:
  "find (\<lambda>a. ident a = aid) attachments = Some atch \<Longrightarrow> atch \<in> set attachments \<and> ident atch = aid"
  by (auto simp: find_Some_iff)

lemma validate_loop_step:
  "validate_loop api attachments (fmt # rest) =
     (case find (\<lambda>a. ident a = attach_id fmt) attachments of
        None \<Rightarrow>
          ([GetAttach (attach_id fmt)],
           Inl (ValidationError (''No attachment for attach_id '' @ attach_id fmt @ '' in formats'')))
      | Some atch \<Rightarrow>
          (case Format_get api (format fmt) of
             None \<Rightarrow>
               (GetAttach (attach_id fmt) # fst (validate_loop api attachments rest),
                snd (validate_loop api attachments rest))
           | Some pf \<Rightarrow>
               (case Format_validate_fields api pf (PRES_20_REQUEST api) (content atch) of
                  Some e \<Rightarrow>
                    ([GetAttach (attach_id fmt), Dispatch pf (PRES_20_REQUEST api) (content atch)],
                     Inl (FormatRaised e))
                | None \<Rightarrow>
                    (GetAttach (attach_id fmt) # Dispatch pf (PRES_20_REQUEST api) (content atch)
                       # fst (validate_loop api attachments rest),
                     snd (validate_loop api attachments rest)))))"
  by (simp add: get_attach_by_id_find split: option.splits prod.splits)

lemma validate_loop_passes_step:
  assumes "passes api attachments fmt"
  shows "snd (validate_loop api attachments (fmt # rest)) = snd (validate_loop api attachments rest)"
    and "lookups (fst (validate_loop api attachments (fmt # rest)))
           = attach_id fmt # lookups (fst (validate_loop api attachments rest))"
    and "dispatches (fst (validate_loop api attachments (fmt # rest)))
           = dispatch_of api attachments fmt @ dispatches (fst (validate_loop api attachments rest))"
  using assms
  by (auto simp: validate_loop_step passes_def dispatch_of_def simp del: validate_loop.simps
      split: option.splits)

lemma validate_loop_fails_step:
  assumes "\<not> passes api attachments fmt"
  shows "\<exists>e. snd (validate_loop api attachments (fmt # rest)) = Inl e"
    and "lookups (fst (validate_loop api attachments (fmt # rest))) = [attach_id fmt]"
    and "dispatches (fst (validate_loop api attachments (fmt # rest))) = dispatch_of api attachments fmt"
  using assms
  by (auto simp: validate_loop_step passes_def dispatch_of_def simp del: validate_loop.simps
      split: option.splits)

lemma validate_loop_all_pass:
  "\<forall>g\<in>set fs. passes api attachments g \<Longrightarrow>
   snd (validate_loop api attachments fs) = Inr ()
   \<and> lookups (fst (validate_loop api attachments fs)) = map attach_id fs
   \<and> dispatches (fst (validate_loop api attachments fs)) = concat (map (dispatch_of api attachments) fs)"
proof (induction fs)
  case Nil
  then show ?case by simp
next
  case (Cons g fs)
  then have "passes api attachments g" by simp
  from validate_loop_passes_step [OF this, of fs] Cons show ?case
    by (simp del: validate_loop.simps)
qed

lemma validate_loop_prefix:
  assumes "\<forall>g\<in>set pre. passes api attachments g"
  shows "snd (validate_loop api attachments (pre @ fs)) = snd (validate_loop api attachments fs)
    \<and> lookups (fst (validate_loop api attachments (pre @ fs)))
          = map attach_id pre @ lookups (fst (validate_loop api attachments fs))
    \<and> dispatches (fst (validate_loop api attachments (pre @ fs)))
          = concat (map (dispatch_of api attachments) pre)
              @ dispatches (fst (validate_loop api attachments fs))"
  using assms
proof (induction pre)
  case Nil
  show ?case by simp
next
  case (Cons g pre)
  then have g: "passes api attachments g"
    by simp
  from Cons validate_loop_passes_step [OF g, of "pre @ fs"] show ?case
    by (simp del: validate_loop.simps)
qed



lemma validate_loop_error_source:
  "snd (validate_loop api attachments fs) = Inl e \<Longrightarrow>
   (\<exists>g\<in>set fs. attach_id g \<notin> ident ` set attachments
       \<and> e = ValidationError (''No attachment for attach_id '' @ attach_id g @ '' in formats''))
   \<or> (\<exists>g\<in>set fs. \<exists>pf atch x. Format_get api (format g) = Some pf
         \<and> find (\<lambda>a. ident a = attach_id g) attachments = Some atch
         \<and> Format_validate_fields api pf (PRES_20_REQUEST api) (content atch) = Some x
         \<and> e = FormatRaised x)"
proof (induction fs)
  case Nil
  then show ?case by simp
next
  case (Cons g fs)
  show ?case
  proof (cases "passes api attachments g")
    case True
    with Cons validate_loop_passes_step(1) [OF True, of fs] show ?thesis by auto
  next
    case False
    with Cons.prems show ?thesis
      by (auto simp: validate_loop_step passes_def find_ident_None simp del: validate_loop.simps
          split: option.splits)
  qed
qed

lemma validate_loop_stops_at_failure:
  assumes "\<not> passes api attachments fmt"
  shows "(\<exists>e. snd (validate_loop api attachments (pre @ fmt # post)) = Inl e)
    \<and> (\<exists>n\<le>Suc (length pre).
          lookups (fst (validate_loop api attachments (pre @ fmt # post)))
            = map attach_id (take n (pre @ [fmt])))"
proof (induction pre)
  case Nil
  from validate_loop_fails_step [OF assms, of post] show ?case
    by (auto simp del: validate_loop.simps intro!: exI [of _ "Suc 0"])
next
  case (Cons g pre)
  show ?case
  proof (cases "passes api attachments g")
    case True
    from Cons obtain n where n: "n \<le> Suc (length pre)"
      "lookups (fst (validate_loop api attachments (pre @ fmt # post)))
         = map attach_id (take n (pre @ [fmt]))"
      by blast
    from Cons have e: "\<exists>e. snd (validate_loop api attachments (pre @ fmt # post)) = Inl e"
      by blast
    have "\<exists>m\<le>Suc (length (g # pre)).
            lookups (fst (validate_loop api attachments ((g # pre) @ fmt # post)))
              = map attach_id (take m ((g # pre) @ [fmt]))"
      using n validate_loop_passes_step(2) [OF True, of "pre @ fmt # post"]
      by (intro exI [of _ "Suc n"]) (simp del: validate_loop.simps)
    moreover have "\<exists>e. snd (validate_loop api attachments ((g # pre) @ fmt # post)) = Inl e"
      using e validate_loop_passes_step(1) [OF True, of "pre @ fmt # post"]
      by (simp del: validate_loop.simps)
    ultimately show ?thesis by blast
  next
    case False
    from validate_loop_fails_step [OF False, of "pre @ fmt # post"] show ?thesis
      by (auto simp del: validate_loop.simps intro!: exI [of _ "Suc 0"])
  qed
qed

lemma validate_loop_missing_after_passing:
  assumes "\<forall>g\<in>set pre. passes api attachments g"
    and "attach_id fmt \<notin> ident ` set attachments"
  shows "snd (validate_loop api attachments (pre @ fmt # post))
           = Inl (ValidationError (''No attachment for attach_id '' @ attach_id fmt @ '' in formats''))"
    and "lookups (fst (validate_loop api attachments (pre @ fmt # post)))
           = map attach_id pre @ [attach_id fmt]"
proof -
  from assms(2) have none: "find (\<lambda>a. ident a = attach_id fmt) attachments = None"
    by (simp add: find_ident_None)
  then have step: "validate_loop api attachments (fmt # post)
      = ([GetAttach (attach_id fmt)],
         Inl (ValidationError (''No attachment for attach_id '' @ attach_id fmt @ '' in formats'')))"
    by (simp add: validate_loop_step del: validate_loop.simps)
  from validate_loop_prefix [OF assms(1), of "fmt # post"] step
  show "snd (validate_loop api attachments (pre @ fmt # post))
           = Inl (ValidationError (''No attachment for attach_id '' @ attach_id fmt @ '' in formats''))"
    by simp
  from validate_loop_prefix [OF assms(1), of "fmt # post"] step
  show "lookups (fst (validate_loop api attachments (pre @ fmt # post)))
           = map attach_id pre @ [attach_id fmt]"
    by simp
qed

lemma not_passes_missing:
  "attach_id fmt \<notin> ident ` set attachments \<Longrightarrow> \<not> passes api attachments fmt"
  by (simp add: passes_def find_ident_None [symmetric])

lemma find_first_index:
  assumes "i < length xs" "P (xs ! i)" "\<forall>k<i. \<not> P (xs ! k)"
  shows "find P xs = Some (xs ! i)"
  using assms
proof (induction xs arbitrary: i)
  case Nil
  then show ?case by simp
next
  case (Cons x xs)
  show ?case
  proof (cases i)
    case 0
    with Cons.prems show ?thesis by simp
  next
    case (Suc j)
    with Cons.prems have "\<not> P x" by auto
    moreover have "find P xs = Some (xs ! j)"
      using Cons.prems Suc by (intro Cons.IH) auto
    ultimately show ?thesis using Suc by simp
  qed
qed

lemma missing_message_inject:
  "''No attachment for attach_id '' @ a @ '' in formats''
     = ''No attachment for attach_id '' @ b @ '' in formats'' \<longleftrightarrow> a = b"
  by simp

lemma validate_loop_no_missing_error:
  assumes "aid \<in> ident ` set attachments"
  shows "snd (validate_loop api attachments fs)
           \<noteq> Inl (ValidationError (''No attachment for attach_id '' @ aid @ '' in formats''))"
proof
  assume "snd (validate_loop api attachments fs)
            = Inl (ValidationError (''No attachment for attach_id '' @ aid @ '' in formats''))"
  from validate_loop_error_source [OF this]
  have "aid \<notin> ident ` set attachments"
    by auto
  with assms show False by simp
qed

lemma validate_loop_first_dispatch:
  assumes "find (\<lambda>a. ident a = attach_id fmt) attachments = Some atch"
    and "Format_get api (format fmt) = Some pf"
  shows "\<exists>tr. dispatches (fst (validate_loop api attachments (fmt # rest)))
           = (pf, PRES_20_REQUEST api, content atch) # tr"
  using assms
  by (auto simp: validate_loop_step simp del: validate_loop.simps split: option.splits)

lemma exactly_one_bound:
  assumes "length (filter (\<lambda>a. ident a = aid) attachments) = 1"
  shows "\<exists>atch\<in>set attachments. ident atch = aid \<and> find (\<lambda>a. ident a = aid) attachments = Some atch"
proof -
  from assms have "filter (\<lambda>a. ident a = aid) attachments \<noteq> []" by auto
  then obtain atch where "atch \<in> set attachments" "ident atch = aid"
    by (auto simp: filter_empty_conv)
  then have "find (\<lambda>a. ident a = aid) attachments \<noteq> None"
    by (auto simp: find_None_iff)
  then show ?thesis
    by (auto dest: find_ident_Some)
qed






lemma next_filter_find:
  "next_filter (map g xs) = (case find (\<lambda>x. g x \<noteq> None) xs of None \<Rightarrow> None | Some x \<Rightarrow> g x)"
  by (induction xs) (auto split: option.splits)

lemma find_first_known:
  "find (\<lambda>x. g x \<noteq> None) xs = Some x \<Longrightarrow> g x = Some t \<Longrightarrow> find (\<lambda>x. g x = Some t) xs = Some x"
  by (induction xs) (auto split: if_splits)

lemma not_passes_bound:
  assumes "\<not> passes api attachments g" and "attach_id g \<in> ident ` set attachments"
  shows "\<exists>pf atch x. Format_get api (format g) = Some pf
      \<and> find (\<lambda>a. ident a = attach_id g) attachments = Some atch
      \<and> Format_validate_fields api pf (PRES_20_REQUEST api) (content atch) = Some x"
proof -
  from assms(2) obtain atch where "find (\<lambda>a. ident a = attach_id g) attachments = Some atch"
    by (cases "find (\<lambda>a. ident a = attach_id g) attachments") (auto simp: find_ident_None)
  with assms(1) show ?thesis
    by (auto simp: passes_def split: option.splits)
qed

lemma validate_loop_rejected_after_passing:
  assumes "\<forall>h\<in>set p1. passes api attachments h"
    and "find (\<lambda>a. ident a = attach_id g) attachments = Some atch"
    and "Format_get api (format g) = Some pf"
    and "Format_validate_fields api pf (PRES_20_REQUEST api) (content atch) = Some x"
  shows "snd (validate_loop api attachments (p1 @ g # p2)) = Inl (FormatRaised x)
    \<and> lookups (fst (validate_loop api attachments (p1 @ g # p2))) = map attach_id p1 @ [attach_id g]"
proof -
  have step: "validate_loop api attachments (g # p2)
      = ([GetAttach (attach_id g), Dispatch pf (PRES_20_REQUEST api) (content atch)],
         Inl (FormatRaised x))"
    using assms(2-4) by (simp add: validate_loop_step del: validate_loop.simps)
  from validate_loop_prefix [OF assms(1), of "g # p2"] step show ?thesis
    by simp
qed

lemma first_not_passing:
  "(\<forall>g\<in>set pre. passes api attachments g)
   \<or> (\<exists>p1 g p2. pre = p1 @ g # p2 \<and> (\<forall>h\<in>set p1. passes api attachments h)
         \<and> \<not> passes api attachments g)"
proof (cases "\<forall>g\<in>set pre. passes api attachments g")
  case True
  then show ?thesis by simp
next
  case False
  then have "\<exists>g\<in>set pre. \<not> passes api attachments g" by simp
  from split_list_first_prop [OF this] show ?thesis
    by blast
qed


section \<open>Base64: decoding undoes encoding\<close>

lemma b64_alphabet_table:
  "list_all (\<lambda>n. b64_value (b64_char n) = Some n \<and> b64_char n \<noteq> CHR ''='') [0..<64]"
  by code_simp

lemma b64_value_char:
  assumes "n < 64"
  shows "b64_value (b64_char n) = Some n" and "b64_char n \<noteq> CHR ''=''"
  using assms b64_alphabet_table by (simp_all add: list_all_iff)

lemma unat_byte: "unat (a :: 8 word) < 256"
  using unsigned_less [of a, where ?'a = nat] by simp

lemma sextet_bounds:
  fixes x y z :: nat
  shows "x < 256 \<Longrightarrow> x div 4 < 64" "x mod 4 * 16 < 64" "y < 256 \<Longrightarrow> x mod 4 * 16 + y div 16 < 64"
    "y mod 16 * 4 < 64" "z < 256 \<Longrightarrow> y mod 16 * 4 + z div 64 < 64" "z mod 64 < 64"
  by simp_all

lemma regroup1: "y < 256 \<Longrightarrow> x div 4 * 4 + (x mod 4 * 16 + y div 16) div 16 = (x::nat)"
  by simp

lemma regroup1': "x div 4 * 4 + (x mod 4 * 16) div 16 = (x::nat)"
  by simp

lemma regroup2:
  "y < 256 \<Longrightarrow> z < 256 \<Longrightarrow>
   (x mod 4 * 16 + y div 16) mod 16 * 16 + (y mod 16 * 4 + z div 64) div 4 = (y::nat)"
  by simp

lemma regroup2':
  "y < 256 \<Longrightarrow> (x mod 4 * 16 + y div 16) mod 16 * 16 + (y mod 16 * 4) div 4 = (y::nat)"
  by simp

lemma regroup3: "z < 256 \<Longrightarrow> (y mod 16 * 4 + z div 64) mod 4 * 64 + z mod 64 = (z::nat)"
  by simp

lemma byte_first:
  fixes a b c :: "8 word"
  shows "word_of_nat (unat a div 4 * 4 + (unat a mod 4 * 16 + unat b div 16) div 16) = (a :: 8 word)"
    (is "word_of_nat ?n = a")
proof -
  have "?n = unat a" by (rule regroup1) (rule unat_byte)
  then show ?thesis by simp
qed

lemma byte_first_padded:
  fixes a b c :: "8 word"
  shows "word_of_nat (unat a div 4 * 4 + (unat a mod 4 * 16) div 16) = (a :: 8 word)"
    (is "word_of_nat ?n = a")
proof -
  have "?n = unat a" by (rule regroup1')
  then show ?thesis by simp
qed

lemma byte_second:
  fixes a b c :: "8 word"
  shows "word_of_nat ((unat a mod 4 * 16 + unat b div 16) mod 16 * 16
      + (unat b mod 16 * 4 + unat c div 64) div 4) = (b :: 8 word)"
    (is "word_of_nat ?n = b")
proof -
  have "?n = unat b" by (rule regroup2) (rule unat_byte)+
  then show ?thesis by simp
qed

lemma byte_second_padded:
  fixes a b c :: "8 word"
  shows "word_of_nat ((unat a mod 4 * 16 + unat b div 16) mod 16 * 16 + (unat b mod 16 * 4) div 4)
     = (b :: 8 word)"
    (is "word_of_nat ?n = b")
proof -
  have "?n = unat b" by (rule regroup2') (rule unat_byte)
  then show ?thesis by simp
qed

lemma byte_third:
  fixes a b c :: "8 word"
  shows "word_of_nat ((unat b mod 16 * 4 + unat c div 64) mod 4 * 64 + unat c mod 64) = (c :: 8 word)"
    (is "word_of_nat ?n = c")
proof -
  have "?n = unat c" by (rule regroup3) (rule unat_byte)
  then show ?thesis by simp
qed

lemmas b64_steps =
  b64encode.simps b64decode.simps append_Cons append_Nil
  b64_value_char sextet_bounds unat_byte
  byte_first byte_first_padded byte_second byte_second_padded byte_third
  option.case prod.case if_True if_False simp_thms

lemma b64decode_b64encode: "b64decode (b64encode bs) = Some bs"
proof (induction bs rule: b64encode.induct)
  case 1
  show ?case by simp
next
  case (2 a)
  show ?case by (simp only: b64_steps)
next
  case (3 a b)
  show ?case by (simp only: b64_steps)
next
  case (4 a b c rest)
  then show ?case by (simp only: b64_steps)
qed

section \<open>Properties of schema validation\<close>

text \<open>
  C1. Whenever the two sequences differ in length, validation raises the length-mismatch
  error, whatever the sequences contain, whatever the registry and the validators are, and
  without having made a single call: no attachment lookup and no dispatch precede it.
\<close>

theorem validate_fields_length_mismatch:
  "length (or_empty (data_formats data))
     \<noteq> length (or_empty (data_request_presentations_attach data))
   \<Longrightarrow> validate_fields api data
         = ([], Inl (ValidationError ''Formats/attachments length mismatch''))"
  by (simp add: validate_fields_def)

theorem validate_fields_length_mismatch_witness:
  "length (or_empty (data_formats (demo_data (Some [\<lparr>attach_id = ''a1'', format = ''known/1.0''\<rparr>]) None)))
     \<noteq> length (or_empty (data_request_presentations_attach
          (demo_data (Some [\<lparr>attach_id = ''a1'', format = ''known/1.0''\<rparr>]) None)))
   \<and> validate_fields demo_api (demo_data (Some [\<lparr>attach_id = ''a1'', format = ''known/1.0''\<rparr>]) None)
       = ([], Inl (ValidationError ''Formats/attachments length mismatch''))"
  using validate_fields_length_mismatch
    [of "demo_data (Some [\<lparr>attach_id = ''a1'', format = ''known/1.0''\<rparr>]) None" demo_api]
  by (simp add: demo_data_def)

text \<open>
  C10. When both \<^verbatim>\<open>formats\<close> and \<^verbatim>\<open>request_presentations_attach\<close> are absent, \<^verbatim>\<open>None\<close>
  or empty, validation returns normally and makes no call: the lengths agree (both are
  0 after the coercion to an empty list) and the loop body never runs.
\<close>

theorem validate_fields_empty:
  "data_formats data \<in> {None, Some []} \<Longrightarrow>
   data_request_presentations_attach data \<in> {None, Some []} \<Longrightarrow>
   validate_fields api data = ([], Inr ())"
  by (auto simp: validate_fields_def)

theorem validate_fields_empty_witness:
  "data_formats (demo_data None (Some [])) \<in> {None, Some []}
   \<and> data_request_presentations_attach (demo_data None (Some [])) \<in> {None, Some []}
   \<and> validate_fields demo_api (demo_data None (Some [])) = ([], Inr ())"
  using validate_fields_empty [of "demo_data None (Some [])" demo_api]
  by (simp add: demo_data_def)

text \<open>
  C2 (as amended). Take a message whose two sequences have equal length and in which some
  descriptor's \<^verbatim>\<open>attach_id\<close> is carried by no attachment; let \<open>fmt\<close> be the first such
  descriptor, \<open>pre\<close> the descriptors before it and \<open>post\<close> those after it. Then validation
  fails, and it looks up no descriptor of \<open>post\<close>: the lookups made are an initial part of
  those of \<open>pre\<close> followed by \<open>fmt\<close>. Which error is raised depends on \<open>pre\<close> alone, and one
  of two cases always applies. When every descriptor of \<open>pre\<close> passes (no per-format
  validator raises on the content of an earlier descriptor), the error is the
  missing-attachment error naming \<open>attach_id fmt\<close>, raised right after the lookups of
  \<open>pre\<close> and \<open>fmt\<close>. Otherwise let \<open>g\<close> be the first descriptor of \<open>pre\<close> that does not
  pass, \<open>p1\<close> the descriptors before it: \<open>g\<close> has a known format and an attachment, the
  error is the exception its validator raises on that attachment's content, and it is
  raised right after the lookups of \<open>p1\<close> and \<open>g\<close>, before \<open>fmt\<close> is looked up.
\<close>

theorem validate_fields_first_missing_attachment:
  assumes "or_empty (data_formats data) = pre @ fmt # post"
    and "length (or_empty (data_formats data))
           = length (or_empty (data_request_presentations_attach data))"
    and "\<forall>g\<in>set pre. attach_id g \<in> ident ` set (or_empty (data_request_presentations_attach data))"
    and "attach_id fmt \<notin> ident ` set (or_empty (data_request_presentations_attach data))"
  shows "(\<exists>e. snd (validate_fields api data) = Inl e)
    \<and> (\<exists>n\<le>Suc (length pre).
          lookups (fst (validate_fields api data)) = map attach_id (take n (pre @ [fmt])))
    \<and> ((\<forall>g\<in>set pre. passes api (or_empty (data_request_presentations_attach data)) g) \<longrightarrow>
          snd (validate_fields api data)
            = Inl (ValidationError (''No attachment for attach_id '' @ attach_id fmt @ '' in formats''))
          \<and> lookups (fst (validate_fields api data)) = map attach_id pre @ [attach_id fmt])
    \<and> (pre = p1 @ g # p2
          \<and> (\<forall>h\<in>set p1. passes api (or_empty (data_request_presentations_attach data)) h)
          \<and> \<not> passes api (or_empty (data_request_presentations_attach data)) g \<longrightarrow>
          (\<exists>pf atch x.
              Format_get api (format g) = Some pf
              \<and> find (\<lambda>a. ident a = attach_id g) (or_empty (data_request_presentations_attach data))
                  = Some atch
              \<and> Format_validate_fields api pf (PRES_20_REQUEST api) (content atch) = Some x
              \<and> snd (validate_fields api data) = Inl (FormatRaised x))
          \<and> lookups (fst (validate_fields api data)) = map attach_id p1 @ [attach_id g])
    \<and> ((\<forall>g\<in>set pre. passes api (or_empty (data_request_presentations_attach data)) g)
        \<or> (\<exists>p1 g p2. pre = p1 @ g # p2
              \<and> (\<forall>h\<in>set p1. passes api (or_empty (data_request_presentations_attach data)) h)
              \<and> \<not> passes api (or_empty (data_request_presentations_attach data)) g))"
proof -
  let ?atts = "or_empty (data_request_presentations_attach data)"
  have vf: "validate_fields api data = validate_loop api ?atts (pre @ fmt # post)"
    using assms(1,2) by (simp add: validate_fields_def)
  have np: "\<not> passes api ?atts fmt"
    using assms(4) by (rule not_passes_missing)
  have A: "(\<exists>e. snd (validate_fields api data) = Inl e)
    \<and> (\<exists>n\<le>Suc (length pre).
          lookups (fst (validate_fields api data)) = map attach_id (take n (pre @ [fmt])))"
    unfolding vf using validate_loop_stops_at_failure [OF np, of pre post] .
  have B: "(\<forall>g\<in>set pre. passes api ?atts g) \<longrightarrow>
          snd (validate_fields api data)
            = Inl (ValidationError (''No attachment for attach_id '' @ attach_id fmt @ '' in formats''))
          \<and> lookups (fst (validate_fields api data)) = map attach_id pre @ [attach_id fmt]"
    unfolding vf using validate_loop_missing_after_passing [OF _ assms(4), of pre api post]
    by blast
  have C: "pre = p1 @ g # p2 \<and> (\<forall>h\<in>set p1. passes api ?atts h) \<and> \<not> passes api ?atts g \<longrightarrow>
          (\<exists>pf atch x.
              Format_get api (format g) = Some pf
              \<and> find (\<lambda>a. ident a = attach_id g) ?atts = Some atch
              \<and> Format_validate_fields api pf (PRES_20_REQUEST api) (content atch) = Some x
              \<and> snd (validate_fields api data) = Inl (FormatRaised x))
          \<and> lookups (fst (validate_fields api data)) = map attach_id p1 @ [attach_id g]"
  proof
    assume h: "pre = p1 @ g # p2 \<and> (\<forall>h\<in>set p1. passes api ?atts h) \<and> \<not> passes api ?atts g"
    then have "attach_id g \<in> ident ` set ?atts"
      using assms(3) by simp
    from not_passes_bound [OF _ this, of api] h obtain pf atch x where
      b: "Format_get api (format g) = Some pf"
         "find (\<lambda>a. ident a = attach_id g) ?atts = Some atch"
         "Format_validate_fields api pf (PRES_20_REQUEST api) (content atch) = Some x"
      by blast
    have vf': "validate_fields api data = validate_loop api ?atts (p1 @ g # (p2 @ fmt # post))"
      using vf h by simp
    from validate_loop_rejected_after_passing [OF _ b(2) b(1) b(3), of p1 "p2 @ fmt # post"] h
    have "snd (validate_fields api data) = Inl (FormatRaised x)
      \<and> lookups (fst (validate_fields api data)) = map attach_id p1 @ [attach_id g]"
      unfolding vf' by blast
    with b show "(\<exists>pf atch x.
              Format_get api (format g) = Some pf
              \<and> find (\<lambda>a. ident a = attach_id g) ?atts = Some atch
              \<and> Format_validate_fields api pf (PRES_20_REQUEST api) (content atch) = Some x
              \<and> snd (validate_fields api data) = Inl (FormatRaised x))
          \<and> lookups (fst (validate_fields api data)) = map attach_id p1 @ [attach_id g]"
      by blast
  qed
  from A B C first_not_passing [of pre api ?atts] show ?thesis
    by blast
qed

text \<open>
  The claim without the proviso fails: the loop validates the content of a descriptor
  before it looks up the next one, so a validator that raises on an earlier descriptor
  ends validation with its own exception. Here the second descriptor (\<^verbatim>\<open>a2\<close>) has no
  attachment, the lengths agree, and the error raised is the validator's for \<^verbatim>\<open>a1\<close>.
\<close>

theorem validate_fields_first_missing_attachment_counterexample:
  "length (or_empty (Some [\<lparr>attach_id = ''a1'', format = ''known/1.0''\<rparr>,
                           \<lparr>attach_id = ''a2'', format = ''known/1.0''\<rparr>]))
     = length (or_empty (Some [\<lparr>ident = ''a1'', content = ''bad''\<rparr>,
                               \<lparr>ident = ''a3'', content = ''ok''\<rparr>]))
   \<and> ''a2'' \<notin> set (map ident [\<lparr>ident = ''a1'', content = ''bad''\<rparr>,
                                \<lparr>ident = ''a3'', content = ''ok''\<rparr>])
   \<and> validate_fields demo_api
        (demo_data (Some [\<lparr>attach_id = ''a1'', format = ''known/1.0''\<rparr>,
                          \<lparr>attach_id = ''a2'', format = ''known/1.0''\<rparr>])
                   (Some [\<lparr>ident = ''a1'', content = ''bad''\<rparr>,
                          \<lparr>ident = ''a3'', content = ''ok''\<rparr>]))
      = ([GetAttach ''a1'', Dispatch 0 ''present-proof/2.0/request-presentation'' ''bad''],
         Inl (FormatRaised ''rejected''))
   \<and> snd (validate_fields demo_api
        (demo_data (Some [\<lparr>attach_id = ''a1'', format = ''known/1.0''\<rparr>,
                          \<lparr>attach_id = ''a2'', format = ''known/1.0''\<rparr>])
                   (Some [\<lparr>ident = ''a1'', content = ''bad''\<rparr>,
                          \<lparr>ident = ''a3'', content = ''ok''\<rparr>])))
      \<noteq> Inl (ValidationError (''No attachment for attach_id '' @ ''a2'' @ '' in formats''))"
  by (simp add: validate_fields_def demo_data_def demo_api_def)

theorem validate_fields_first_missing_attachment_witness:
  "validate_fields demo_api
        (demo_data (Some [\<lparr>attach_id = ''a1'', format = ''known/1.0''\<rparr>,
                          \<lparr>attach_id = ''a2'', format = ''known/1.0''\<rparr>,
                          \<lparr>attach_id = ''a3'', format = ''known/1.0''\<rparr>])
                   (Some [\<lparr>ident = ''a1'', content = ''good''\<rparr>,
                          \<lparr>ident = ''a3'', content = ''ok''\<rparr>,
                          \<lparr>ident = ''a4'', content = ''ok''\<rparr>]))
      = ([GetAttach ''a1'', Dispatch 0 ''present-proof/2.0/request-presentation'' ''good'',
          GetAttach ''a2''],
         Inl (ValidationError ''No attachment for attach_id a2 in formats''))
   \<and> validate_fields demo_api
        (demo_data (Some [\<lparr>attach_id = ''a0'', format = ''unknown/1.0''\<rparr>,
                          \<lparr>attach_id = ''a1'', format = ''known/1.0''\<rparr>,
                          \<lparr>attach_id = ''a2'', format = ''known/1.0''\<rparr>,
                          \<lparr>attach_id = ''a3'', format = ''known/1.0''\<rparr>])
                   (Some [\<lparr>ident = ''a0'', content = ''c0''\<rparr>,
                          \<lparr>ident = ''a1'', content = ''bad''\<rparr>,
                          \<lparr>ident = ''a3'', content = ''ok''\<rparr>,
                          \<lparr>ident = ''a4'', content = ''ok''\<rparr>]))
      = ([GetAttach ''a0'', GetAttach ''a1'',
          Dispatch 0 ''present-proof/2.0/request-presentation'' ''bad''],
         Inl (FormatRaised ''rejected''))"
  using validate_fields_first_missing_attachment
    [where data = "demo_data (Some [\<lparr>attach_id = ''a1'', format = ''known/1.0''\<rparr>,
                          \<lparr>attach_id = ''a2'', format = ''known/1.0''\<rparr>,
                          \<lparr>attach_id = ''a3'', format = ''known/1.0''\<rparr>])
                   (Some [\<lparr>ident = ''a1'', content = ''good''\<rparr>,
                          \<lparr>ident = ''a3'', content = ''ok''\<rparr>,
                          \<lparr>ident = ''a4'', content = ''ok''\<rparr>])"
       and pre = "[\<lparr>attach_id = ''a1'', format = ''known/1.0''\<rparr>]"
       and fmt = "\<lparr>attach_id = ''a2'', format = ''known/1.0''\<rparr>"
       and post = "[\<lparr>attach_id = ''a3'', format = ''known/1.0''\<rparr>]"
       and api = demo_api and ?p1.0 = "[]"
       and g = "\<lparr>attach_id = ''a1'', format = ''known/1.0''\<rparr>" and ?p2.0 = "[]"]
    validate_fields_first_missing_attachment
    [where data = "demo_data (Some [\<lparr>attach_id = ''a0'', format = ''unknown/1.0''\<rparr>,
                          \<lparr>attach_id = ''a1'', format = ''known/1.0''\<rparr>,
                          \<lparr>attach_id = ''a2'', format = ''known/1.0''\<rparr>,
                          \<lparr>attach_id = ''a3'', format = ''known/1.0''\<rparr>])
                   (Some [\<lparr>ident = ''a0'', content = ''c0''\<rparr>,
                          \<lparr>ident = ''a1'', content = ''bad''\<rparr>,
                          \<lparr>ident = ''a3'', content = ''ok''\<rparr>,
                          \<lparr>ident = ''a4'', content = ''ok''\<rparr>])"
       and pre = "[\<lparr>attach_id = ''a0'', format = ''unknown/1.0''\<rparr>,
                   \<lparr>attach_id = ''a1'', format = ''known/1.0''\<rparr>]"
       and fmt = "\<lparr>attach_id = ''a2'', format = ''known/1.0''\<rparr>"
       and post = "[\<lparr>attach_id = ''a3'', format = ''known/1.0''\<rparr>]"
       and api = demo_api
       and ?p1.0 = "[\<lparr>attach_id = ''a0'', format = ''unknown/1.0''\<rparr>]"
       and g = "\<lparr>attach_id = ''a1'', format = ''known/1.0''\<rparr>" and ?p2.0 = "[]"]
  by (simp add: validate_fields_def demo_data_def demo_api_def passes_def)

text \<open>
  C3. When the two sequences have equal length and every descriptor's \<^verbatim>\<open>attach_id\<close> is
  the identifier of exactly one attachment, correlation succeeds: \<^verbatim>\<open>get_attach_by_id\<close>
  returns an attachment with that identifier for each descriptor, and validation raises
  no \<^verbatim>\<open>ValidationError\<close> of its own, neither the length mismatch nor a missing attachment
  (what can still be raised is a per-format validator's exception). When moreover no
  validator raises, validation returns normally after one lookup per descriptor, in the
  order of \<^verbatim>\<open>formats\<close>.
\<close>

theorem validate_fields_correlation:
  fixes api :: "('f, 'c, 'e) format_api" and data :: "'c request_data"
  assumes "length (or_empty (data_formats data))
             = length (or_empty (data_request_presentations_attach data))"
    and "\<forall>g\<in>set (or_empty (data_formats data)).
           length (filter (\<lambda>a. ident a = attach_id g)
                     (or_empty (data_request_presentations_attach data))) = 1"
  shows "(\<forall>g\<in>set (or_empty (data_formats data)).
            \<exists>atch\<in>set (or_empty (data_request_presentations_attach data)).
              ident atch = attach_id g
              \<and> (get_attach_by_id (or_empty (data_request_presentations_attach data)) (attach_id g)
                    :: 'e error + 'c AttachDecorator) = Inr atch)
    \<and> (\<forall>m. snd (validate_fields api data) \<noteq> Inl (ValidationError m))
    \<and> ((\<forall>g\<in>set (or_empty (data_formats data)).
           passes api (or_empty (data_request_presentations_attach data)) g) \<longrightarrow>
         snd (validate_fields api data) = Inr ()
         \<and> lookups (fst (validate_fields api data)) = map attach_id (or_empty (data_formats data)))"
proof -
  let ?fs = "or_empty (data_formats data)"
  let ?atts = "or_empty (data_request_presentations_attach data)"
  have vf: "validate_fields api data = validate_loop api ?atts ?fs"
    using assms(1) by (simp add: validate_fields_def)
  have bound: "\<forall>g\<in>set ?fs. \<exists>atch\<in>set ?atts. ident atch = attach_id g
      \<and> find (\<lambda>a. ident a = attach_id g) ?atts = Some atch"
    using assms(2) exactly_one_bound by blast
  then have 1: "\<forall>g\<in>set ?fs. \<exists>atch\<in>set ?atts. ident atch = attach_id g
      \<and> (get_attach_by_id ?atts (attach_id g) :: 'e error + 'c AttachDecorator) = Inr atch"
    by (auto simp: get_attach_by_id_find)
  have 2: "snd (validate_fields api data) \<noteq> Inl (ValidationError m)" for m
  proof
    assume "snd (validate_fields api data) = Inl (ValidationError m)"
    then have "snd (validate_loop api ?atts ?fs) = Inl (ValidationError m)"
      by (simp add: vf)
    from validate_loop_error_source [OF this]
    obtain g :: V20PresFormat where g: "g \<in> set ?fs" "attach_id g \<notin> ident ` set ?atts"
      by auto
    from bound g(1) obtain atch where "atch \<in> set ?atts" "ident atch = attach_id g"
      by blast
    then have "attach_id g \<in> ident ` set ?atts"
      by (metis imageI)
    with g(2) show False by simp
  qed
  have 3: "(\<forall>g\<in>set ?fs. passes api ?atts g) \<longrightarrow>
         snd (validate_fields api data) = Inr ()
         \<and> lookups (fst (validate_fields api data)) = map attach_id ?fs"
    using validate_loop_all_pass [of ?fs api ?atts] by (simp add: vf)
  from 1 2 3 show ?thesis by blast
qed

theorem validate_fields_correlation_witness:
  "validate_fields demo_api
     (demo_data (Some [\<lparr>attach_id = ''a1'', format = ''known/1.0''\<rparr>,
                       \<lparr>attach_id = ''a2'', format = ''other/1.0''\<rparr>])
                (Some [\<lparr>ident = ''a2'', content = ''c2''\<rparr>,
                       \<lparr>ident = ''a1'', content = ''c1''\<rparr>]))
     = ([GetAttach ''a1'', Dispatch 0 ''present-proof/2.0/request-presentation'' ''c1'',
         GetAttach ''a2''], Inr ())
   \<and> lookups (fst (validate_fields demo_api
     (demo_data (Some [\<lparr>attach_id = ''a1'', format = ''known/1.0''\<rparr>,
                       \<lparr>attach_id = ''a2'', format = ''other/1.0''\<rparr>])
                (Some [\<lparr>ident = ''a2'', content = ''c2''\<rparr>,
                       \<lparr>ident = ''a1'', content = ''c1''\<rparr>]))))
     = map attach_id [\<lparr>attach_id = ''a1'', format = ''known/1.0''\<rparr>,
                      \<lparr>attach_id = ''a2'', format = ''other/1.0''\<rparr>]"
  using validate_fields_correlation
    [of "demo_data (Some [\<lparr>attach_id = ''a1'', format = ''known/1.0''\<rparr>,
                       \<lparr>attach_id = ''a2'', format = ''other/1.0''\<rparr>])
                (Some [\<lparr>ident = ''a2'', content = ''c2''\<rparr>,
                       \<lparr>ident = ''a1'', content = ''c1''\<rparr>])" demo_api]
  by (simp add: validate_fields_def demo_data_def demo_api_def passes_def)

text \<open>
  C4. When two attachments (at positions \<open>i < j\<close>) carry the same identifier and \<open>i\<close> is
  the first position carrying it, \<^verbatim>\<open>get_attach_by_id\<close> returns the attachment at \<open>i\<close>. No
  run of the loop over these attachments raises the missing-attachment error for that
  identifier; the only \<^verbatim>\<open>ValidationError\<close> the loop raises is the one for an
  \<^verbatim>\<open>attach_id\<close> that no attachment carries, so none is raised for a duplicate. And a
  descriptor with that \<^verbatim>\<open>attach_id\<close> and a known format has the content of the
  attachment at \<open>i\<close> dispatched to its validator.
\<close>

theorem get_attach_by_id_first_of_duplicates:
  fixes attachments :: "'c AttachDecorator list" and api :: "('f, 'c, 'e) format_api"
  assumes "i < j" and "j < length attachments"
    and "ident (attachments ! i) = aid" and "ident (attachments ! j) = aid"
    and "\<forall>k<i. ident (attachments ! k) \<noteq> aid"
  shows "(get_attach_by_id attachments aid :: 'e error + 'c AttachDecorator) = Inr (attachments ! i)
    \<and> snd (validate_loop api attachments fs)
        \<noteq> Inl (ValidationError (''No attachment for attach_id '' @ aid @ '' in formats''))
    \<and> (\<forall>m. snd (validate_loop api attachments fs) = Inl (ValidationError m) \<longrightarrow>
          (\<exists>g\<in>set fs. attach_id g \<notin> ident ` set attachments
             \<and> m = ''No attachment for attach_id '' @ attach_id g @ '' in formats''))
    \<and> (attach_id fmt = aid \<and> Format_get api (format fmt) = Some pf \<longrightarrow>
        (\<exists>tr. dispatches (fst (validate_loop api attachments (fmt # rest)))
                = (pf, PRES_20_REQUEST api, content (attachments ! i)) # tr))"
proof -
  have i: "i < length attachments" using assms(1,2) by simp
  have f: "find (\<lambda>a. ident a = aid) attachments = Some (attachments ! i)"
    using i assms(3,5) by (intro find_first_index) auto
  have "aid \<in> ident ` set attachments"
    using i assms(3) by (metis imageI nth_mem)
  then have "snd (validate_loop api attachments fs)
        \<noteq> Inl (ValidationError (''No attachment for attach_id '' @ aid @ '' in formats''))"
    by (rule validate_loop_no_missing_error)
  moreover have "\<forall>m. snd (validate_loop api attachments fs) = Inl (ValidationError m) \<longrightarrow>
          (\<exists>g\<in>set fs. attach_id g \<notin> ident ` set attachments
             \<and> m = ''No attachment for attach_id '' @ attach_id g @ '' in formats'')"
    using validate_loop_error_source [of api attachments fs] by auto
  moreover have "(get_attach_by_id attachments aid :: 'e error + 'c AttachDecorator)
      = Inr (attachments ! i)"
    using f by (simp add: get_attach_by_id_find)
  moreover have "attach_id fmt = aid \<and> Format_get api (format fmt) = Some pf \<longrightarrow>
        (\<exists>tr. dispatches (fst (validate_loop api attachments (fmt # rest)))
                = (pf, PRES_20_REQUEST api, content (attachments ! i)) # tr)"
    using f validate_loop_first_dispatch [of fmt attachments "attachments ! i" api pf rest]
    by blast
  ultimately show ?thesis by blast
qed

theorem get_attach_by_id_first_of_duplicates_witness:
  "(get_attach_by_id [\<lparr>ident = ''a0'', content = ''c0''\<rparr>, \<lparr>ident = ''a1'', content = ''first''\<rparr>,
                      \<lparr>ident = ''a1'', content = ''second''\<rparr>] ''a1''
      :: string error + string AttachDecorator)
     = Inr \<lparr>ident = ''a1'', content = ''first''\<rparr>
   \<and> validate_loop demo_api
        [\<lparr>ident = ''a0'', content = ''c0''\<rparr>, \<lparr>ident = ''a1'', content = ''first''\<rparr>,
         \<lparr>ident = ''a1'', content = ''second''\<rparr>]
        [\<lparr>attach_id = ''a1'', format = ''known/1.0''\<rparr>]
     = ([GetAttach ''a1'', Dispatch 0 ''present-proof/2.0/request-presentation'' ''first''], Inr ())"
  using get_attach_by_id_first_of_duplicates
    [of 1 2 "[\<lparr>ident = ''a0'', content = ''c0''\<rparr>, \<lparr>ident = ''a1'', content = ''first''\<rparr>,
              \<lparr>ident = ''a1'', content = ''second''\<rparr>]" "''a1''" demo_api
        "[\<lparr>attach_id = ''a1'', format = ''known/1.0''\<rparr>]"
        "\<lparr>attach_id = ''a1'', format = ''known/1.0''\<rparr>" 0 "[]"]
  by (simp add: demo_api_def)





section \<open>Properties of the message object\<close>

text \<open>
  C8. \<^verbatim>\<open>add_signature\<close> changes the \<^verbatim>\<open>signature\<close> field and nothing else: comment,
  verifier DID, confirmation flag, formats, attachments and message id are the same before
  and after, and the object after the call is the object before it with only the signature
  replaced.
\<close>

theorem add_signature_frame:
  "comment (add_signature self sign) = comment self
   \<and> verifier_did (add_signature self sign) = verifier_did self
   \<and> will_confirm (add_signature self sign) = will_confirm self
   \<and> formats (add_signature self sign) = formats self
   \<and> request_presentations_attach (add_signature self sign) = request_presentations_attach self
   \<and> message_id (add_signature self sign) = message_id self
   \<and> add_signature self sign = self\<lparr>signature := signature (add_signature self sign)\<rparr>"
  by (simp add: add_signature_def)

text \<open>
  C7. After \<^verbatim>\<open>add_signature\<close>, the \<^verbatim>\<open>signature\<close> field holds the Base64 text of the bytes
  given, and decoding that text gives back exactly those bytes, for every message and
  every byte sequence.
\<close>

theorem add_signature_roundtrip:
  "Option.bind (signature (add_signature self sign)) b64decode = Some sign"
  using b64decode_b64encode [of sign] by (simp add: add_signature_def)

theorem add_signature_roundtrip_witness:
  "signature (add_signature (demo_request [] []) [0x4D, 0x61, 0x6E, 0xFF]) = Some ''TWFu/w==''
   \<and> Option.bind (signature (add_signature (demo_request [] []) [0x4D, 0x61, 0x6E, 0xFF])) b64decode
       = Some [0x4D, 0x61, 0x6E, 0xFF]"
proof -
  have enc: "b64encode [0x4D, 0x61, 0x6E, 0xFF] = ''TWFu/w==''"
    by code_simp
  have "signature (add_signature (demo_request [] []) [0x4D, 0x61, 0x6E, 0xFF]) = Some ''TWFu/w==''"
    by (simp add: add_signature_def enc del: b64encode.simps)
  with add_signature_roundtrip [of "demo_request [] []" "[0x4D, 0x61, 0x6E, 0xFF]"]
  show ?thesis by (simp del: b64decode.simps)
qed

text \<open>
  C6. Called without a format, \<^verbatim>\<open>attachment\<close> takes the first descriptor, in the order
  of \<^verbatim>\<open>formats\<close>, whose format identifier is known to the registry, and returns the
  content of the attachment bound to it (the first attachment carrying its
  \<^verbatim>\<open>attach_id\<close>); it returns \<^verbatim>\<open>None\<close>, and raises nothing, when no descriptor has a known
  format, which includes an empty \<^verbatim>\<open>formats\<close>.
\<close>

theorem attachment_default:
  "attachment api self None =
     (case find (\<lambda>f. Format_get api (format f) \<noteq> None) (formats self) of
        None \<Rightarrow> None
      | Some fmt \<Rightarrow>
          (case find (\<lambda>a. ident a = attach_id fmt) (request_presentations_attach self) of
             None \<Rightarrow> None
           | Some atch \<Rightarrow> Some (content atch)))"
proof (cases "find (\<lambda>f. Format_get api (format f) \<noteq> None) (formats self)")
  case None
  then show ?thesis
    by (simp add: attachment_def next_filter_find)
next
  case (Some fmt)
  then obtain t where t: "Format_get api (format fmt) = Some t"
    by (auto simp: find_Some_iff)
  from find_first_known [of "\<lambda>f. Format_get api (format f)", OF Some t]
  have "find (\<lambda>f. Format_get api (format f) = Some t) (formats self) = Some fmt" .
  with Some t show ?thesis
    by (simp add: attachment_def next_filter_find get_attachment_data_def)
qed

theorem attachment_default_witness:
  "attachment demo_api
     (demo_request [\<lparr>attach_id = ''a1'', format = ''unknown/1.0''\<rparr>,
                    \<lparr>attach_id = ''a2'', format = ''known/1.0''\<rparr>]
                   [\<lparr>ident = ''a1'', content = ''c1''\<rparr>, \<lparr>ident = ''a2'', content = ''c2''\<rparr>])
     None = Some ''c2''
   \<and> attachment demo_api
     (demo_request [\<lparr>attach_id = ''a1'', format = ''unknown/1.0''\<rparr>]
                   [\<lparr>ident = ''a1'', content = ''c1''\<rparr>]) None = None
   \<and> attachment demo_api (demo_request [] []) None = None"
  using attachment_default
    [of demo_api "demo_request [\<lparr>attach_id = ''a1'', format = ''unknown/1.0''\<rparr>,
                    \<lparr>attach_id = ''a2'', format = ''known/1.0''\<rparr>]
                   [\<lparr>ident = ''a1'', content = ''c1''\<rparr>, \<lparr>ident = ''a2'', content = ''c2''\<rparr>]"]
    attachment_default
    [of demo_api "demo_request [\<lparr>attach_id = ''a1'', format = ''unknown/1.0''\<rparr>]
                   [\<lparr>ident = ''a1'', content = ''c1''\<rparr>]"]
    attachment_default [of demo_api "demo_request [] []"]
  by (simp add: demo_request_def demo_api_def)

end
